theory Spec2Isabelle
  imports Main "HOL-Library.Word"
begin

unbundle bit_operations_syntax

section \<open>The base runtime of Wuffs: \<^verbatim>\<open>core-public.h\<close>\<close>

text \<open>
  A shallow embedding of \<^verbatim>\<open>src/cmd/wuffs-c/internal/cgen/base/core-public.h\<close>:
  the version constants, the status predicates, the saturating arithmetic and the
  sub-slicing of \<^verbatim>\<open>wuffs_base__slice_u8\<close>. Fixed-width unsigned integers are words of
  their width; C's \<^verbatim>\<open>int\<close> is taken to be 32 bits wide (as on every ILP32, LP64 and
  LLP64 platform) and is represented by its two's-complement bit pattern.
\<close>

subsection \<open>Version constants\<close>










subsection \<open>Statuses\<close>

text \<open>
  \<^verbatim>\<open>typedef const char* wuffs_base__status;\<close> A status is either \<^verbatim>\<open>NULL\<close> (\<open>None\<close>) or
  points to a statically allocated, NUL-terminated message (\<open>Some\<close> of its characters,
  the terminator left out).
\<close>

type_synonym wuffs_base__status = "string option"

text \<open>
  \<^verbatim>\<open>*z\<close> for a non-null \<^verbatim>\<open>z\<close>: the first character of the message, which is the
  terminating NUL when the message is empty.
\<close>

definition first_char :: "string \<Rightarrow> char" where
  "first_char m = (case m of [] \<Rightarrow> CHR 0x00 | c # _ \<Rightarrow> c)"

text \<open>
  The five predicates. \<^verbatim>\<open>||\<close> and \<^verbatim>\<open>&&\<close> evaluate their right operand only when the
  left one has not decided the result, so \<^verbatim>\<open>*z\<close> is never read through \<^verbatim>\<open>NULL\<close>: the
  \<open>None\<close> case returns what the left operand decides.
\<close>

definition wuffs_base__status__is_complete :: "wuffs_base__status \<Rightarrow> bool" where
  "wuffs_base__status__is_complete z =
     (case z of
        None \<Rightarrow> True
      | Some m \<Rightarrow> first_char m \<noteq> CHR ''$'' \<and> first_char m \<noteq> CHR ''?'')"

definition wuffs_base__status__is_error :: "wuffs_base__status \<Rightarrow> bool" where
  "wuffs_base__status__is_error z =
     (case z of None \<Rightarrow> False | Some m \<Rightarrow> first_char m = CHR ''?'')"

definition wuffs_base__status__is_ok :: "wuffs_base__status \<Rightarrow> bool" where
  "wuffs_base__status__is_ok z = (z = None)"

definition wuffs_base__status__is_suspension :: "wuffs_base__status \<Rightarrow> bool" where
  "wuffs_base__status__is_suspension z =
     (case z of None \<Rightarrow> False | Some m \<Rightarrow> first_char m = CHR ''$'')"

definition wuffs_base__status__is_warning :: "wuffs_base__status \<Rightarrow> bool" where
  "wuffs_base__status__is_warning z =
     (case z of
        None \<Rightarrow> False
      | Some m \<Rightarrow> first_char m \<noteq> CHR ''$'' \<and> first_char m \<noteq> CHR ''?'')"

subsection \<open>Saturating arithmetic\<close>

text \<open>
  C's integer promotions and conversions are written out. An operand of type
  \<^verbatim>\<open>uint8_t\<close> or \<^verbatim>\<open>uint16_t\<close> is promoted to \<^verbatim>\<open>int\<close> before \<^verbatim>\<open>+\<close>, \<^verbatim>\<open>-\<close>, \<^verbatim>\<open><\<close>,
  \<^verbatim>\<open><=\<close> and \<^verbatim>\<open>|\<close>, \<^verbatim>\<open>&\<close> (\<open>ucast\<close> to 32 bits; the comparison is then the signed
  one), and the result is converted back on assignment (\<open>ucast\<close> to the narrow type).
  \<^verbatim>\<open>uint32_t\<close> and \<^verbatim>\<open>uint64_t\<close> operands are not promoted. A comparison yields the
  \<^verbatim>\<open>int\<close> 0 or 1, which unary minus turns into 0 or -1; for \<^verbatim>\<open>|=\<close> and \<^verbatim>\<open>&=\<close> on a
  \<^verbatim>\<open>uint64_t\<close> that \<^verbatim>\<open>int\<close> is converted to 64 bits by sign extension (\<open>scast\<close>).
\<close>

type_synonym c_int = "32 word"

definition c_bool :: "bool \<Rightarrow> c_int" where
  "c_bool b = (if b then 1 else 0)"

definition wuffs_base__u8__sat_add :: "8 word \<Rightarrow> 8 word \<Rightarrow> 8 word" where
  "wuffs_base__u8__sat_add x y =
     (let res = (ucast ((ucast x :: c_int) + ucast y) :: 8 word);
          res' = (ucast ((ucast res :: c_int) OR
                   - c_bool ((ucast res :: c_int) <s ucast x)) :: 8 word)
      in res')"

definition wuffs_base__u8__sat_sub :: "8 word \<Rightarrow> 8 word \<Rightarrow> 8 word" where
  "wuffs_base__u8__sat_sub x y =
     (let res = (ucast ((ucast x :: c_int) - ucast y) :: 8 word);
          res' = (ucast ((ucast res :: c_int) AND
                   - c_bool ((ucast res :: c_int) \<le>s ucast x)) :: 8 word)
      in res')"

definition wuffs_base__u16__sat_add :: "16 word \<Rightarrow> 16 word \<Rightarrow> 16 word" where
  "wuffs_base__u16__sat_add x y =
     (let res = (ucast ((ucast x :: c_int) + ucast y) :: 16 word);
          res' = (ucast ((ucast res :: c_int) OR
                   - c_bool ((ucast res :: c_int) <s ucast x)) :: 16 word)
      in res')"

definition wuffs_base__u16__sat_sub :: "16 word \<Rightarrow> 16 word \<Rightarrow> 16 word" where
  "wuffs_base__u16__sat_sub x y =
     (let res = (ucast ((ucast x :: c_int) - ucast y) :: 16 word);
          res' = (ucast ((ucast res :: c_int) AND
                   - c_bool ((ucast res :: c_int) \<le>s ucast x)) :: 16 word)
      in res')"

definition wuffs_base__u32__sat_add :: "32 word \<Rightarrow> 32 word \<Rightarrow> 32 word" where
  "wuffs_base__u32__sat_add x y =
     (let res = x + y;
          res' = res OR - c_bool (res < x)
      in res')"

definition wuffs_base__u32__sat_sub :: "32 word \<Rightarrow> 32 word \<Rightarrow> 32 word" where
  "wuffs_base__u32__sat_sub x y =
     (let res = x - y;
          res' = res AND - c_bool (res \<le> x)
      in res')"

definition wuffs_base__u64__sat_add :: "64 word \<Rightarrow> 64 word \<Rightarrow> 64 word" where
  "wuffs_base__u64__sat_add x y =
     (let res = x + y;
          res' = res OR scast (- c_bool (res < x))
      in res')"

definition wuffs_base__u64__sat_sub :: "64 word \<Rightarrow> 64 word \<Rightarrow> 64 word" where
  "wuffs_base__u64__sat_sub x y =
     (let res = x - y;
          res' = res AND scast (- c_bool (res \<le> x))
      in res')"

subsection \<open>Slices\<close>

text \<open>
  \<^verbatim>\<open>typedef WUFFS_BASE__SLICE(uint8_t) wuffs_base__slice_u8;\<close> is a struct of a
  \<^verbatim>\<open>uint8_t*\<close> and a \<^verbatim>\<open>size_t\<close>. The width of \<^verbatim>\<open>size_t\<close> is the platform's: it is the
  type parameter \<open>'z\<close>, and the header requires a word size of 32 or 64 bits and that a
  \<^verbatim>\<open>size_t\<close> converts to \<^verbatim>\<open>uint64_t\<close> without overflow, that is \<open>LENGTH('z) \<le> 64\<close>.
  The pointer is a byte address of the same width (0 for \<^verbatim>\<open>NULL\<close>), as on the flat 32
  and 64 bit platforms the header accepts. Adding \<^verbatim>\<open>i\<close> to a \<^verbatim>\<open>uint8_t*\<close> adds \<^verbatim>\<open>i\<close>
  to the address, and as the compiled code does it wraps around at the pointer's width.
\<close>

record (overloaded) 'z wuffs_base__slice_u8 =
  ptr :: "'z word"
  len :: "'z word"

text \<open>\<^verbatim>\<open>SIZE_MAX\<close> of \<^verbatim>\<open><stdint.h>\<close>: the largest \<^verbatim>\<open>size_t\<close>.\<close>

definition SIZE_MAX :: "'z::len word" where
  "SIZE_MAX = - 1"

text \<open>\<^verbatim>\<open>((wuffs_base__slice_u8){})\<close>: every field \<^verbatim>\<open>NULL\<close> or zero.\<close>

definition empty_slice :: "'z::len wuffs_base__slice_u8" where
  "empty_slice = \<lparr>ptr = 0, len = 0\<rparr>"

text \<open>
  The indices are \<^verbatim>\<open>uint64_t\<close>. In a comparison or a subtraction with a \<^verbatim>\<open>uint64_t\<close>,
  a \<^verbatim>\<open>size_t\<close> is converted to 64 bits (\<open>ucast\<close>); a \<^verbatim>\<open>uint64_t\<close> stored into the
  \<^verbatim>\<open>len\<close> field is converted to \<^verbatim>\<open>size_t\<close> (\<open>ucast\<close> again), and a \<^verbatim>\<open>uint64_t\<close>
  added to the pointer is taken at the pointer's width (\<open>ucast\<close>).
\<close>

definition wuffs_base__slice_u8__subslice_i ::
  "'z::len wuffs_base__slice_u8 \<Rightarrow> 64 word \<Rightarrow> 'z wuffs_base__slice_u8" where
  "wuffs_base__slice_u8__subslice_i s i =
     (if i \<le> ucast (SIZE_MAX :: 'z word) \<and> i \<le> ucast (len s)
      then \<lparr>ptr = ptr s + ucast i, len = ucast (ucast (len s) - i)\<rparr>
      else empty_slice)"

definition wuffs_base__slice_u8__subslice_j ::
  "'z::len wuffs_base__slice_u8 \<Rightarrow> 64 word \<Rightarrow> 'z wuffs_base__slice_u8" where
  "wuffs_base__slice_u8__subslice_j s j =
     (if j \<le> ucast (SIZE_MAX :: 'z word) \<and> j \<le> ucast (len s)
      then \<lparr>ptr = ptr s, len = ucast j\<rparr>
      else empty_slice)"

definition wuffs_base__slice_u8__subslice_ij ::
  "'z::len wuffs_base__slice_u8 \<Rightarrow> 64 word \<Rightarrow> 64 word \<Rightarrow> 'z wuffs_base__slice_u8" where
  "wuffs_base__slice_u8__subslice_ij s i j =
     (if i \<le> j \<and> j \<le> ucast (SIZE_MAX :: 'z word) \<and> j \<le> ucast (len s)
      then \<lparr>ptr = ptr s + ucast i, len = ucast (j - i)\<rparr>
      else empty_slice)"

text \<open>
  The memory of a slice lies in the address space, its end included: the pointer plus
  the length does not wrap around. A slice over a buffer that exists is of this kind.
\<close>

definition in_address_space :: "'z::len wuffs_base__slice_u8 \<Rightarrow> bool" where
  "in_address_space s = (unat (ptr s) + unat (len s) < 2 ^ LENGTH('z))"

text \<open>
  A slice \<open>r\<close> lies inside a slice \<open>s\<close>: it is no longer than \<open>s\<close>, it starts at or after
  the start of \<open>s\<close>, at an offset of at most the length of \<open>s\<close>, and it ends no later
  than \<open>s\<close> does. The addresses are compared as numbers.
\<close>

definition contained_in ::
  "'z::len wuffs_base__slice_u8 \<Rightarrow> 'z wuffs_base__slice_u8 \<Rightarrow> bool" where
  "contained_in r s =
     (unat (len r) \<le> unat (len s) \<and>
      unat (ptr s) \<le> unat (ptr r) \<and>
      unat (ptr r) - unat (ptr s) \<le> unat (len s) \<and>
      (unat (ptr r) - unat (ptr s)) + unat (len r) \<le> unat (len s))"

text \<open>
  The same with the pointer's own arithmetic: the offset of \<open>r\<close> in \<open>s\<close> is the
  difference of the two pointers at the pointer's width, so that the pointer of \<open>r\<close> is
  the pointer of \<open>s\<close> plus that offset whether or not the addition wraps around.
\<close>

definition offset_in :: "'z::len wuffs_base__slice_u8 \<Rightarrow> 'z wuffs_base__slice_u8 \<Rightarrow> nat" where
  "offset_in r s = unat (ptr r - ptr s)"

definition contained_in_mod ::
  "'z::len wuffs_base__slice_u8 \<Rightarrow> 'z wuffs_base__slice_u8 \<Rightarrow> bool" where
  "contained_in_mod r s =
     (unat (len r) \<le> unat (len s) \<and>
      ptr r = ptr s + word_of_nat (offset_in r s) \<and>
      offset_in r s \<le> unat (len s) \<and>
      offset_in r s + unat (len r) \<le> unat (len s))"

subsection \<open>The functions of the header\<close>

text \<open>
  Every function the header defines, by name and in the header's order. The four slice
  types are declared by \<^verbatim>\<open>typedef WUFFS_BASE__SLICE(uint8_t) wuffs_base__slice_u8;\<close> and its
  three companions for \<^verbatim>\<open>uint16_t\<close>, \<^verbatim>\<open>uint32_t\<close> and \<^verbatim>\<open>uint64_t\<close>; a function on a
  type is named by the type, two underscores and the operation.
\<close>

definition header_functions :: "string list" where
  "header_functions =
     [''wuffs_base__status__is_complete'',
      ''wuffs_base__status__is_error'',
      ''wuffs_base__status__is_ok'',
      ''wuffs_base__status__is_suspension'',
      ''wuffs_base__status__is_warning'',
      ''wuffs_base__u8__min'',
      ''wuffs_base__u8__max'',
      ''wuffs_base__u16__min'',
      ''wuffs_base__u16__max'',
      ''wuffs_base__u32__min'',
      ''wuffs_base__u32__max'',
      ''wuffs_base__u64__min'',
      ''wuffs_base__u64__max'',
      ''wuffs_base__u8__sat_add'',
      ''wuffs_base__u8__sat_sub'',
      ''wuffs_base__u16__sat_add'',
      ''wuffs_base__u16__sat_sub'',
      ''wuffs_base__u32__sat_add'',
      ''wuffs_base__u32__sat_sub'',
      ''wuffs_base__u64__sat_add'',
      ''wuffs_base__u64__sat_sub'',
      ''wuffs_base__slice_u8__subslice_i'',
      ''wuffs_base__slice_u8__subslice_j'',
      ''wuffs_base__slice_u8__subslice_ij'']"

datatype slice_type = Slice_u8 | Slice_u16 | Slice_u32 | Slice_u64

fun slice_type_name :: "slice_type \<Rightarrow> string" where
  "slice_type_name Slice_u8 = ''wuffs_base__slice_u8''"
| "slice_type_name Slice_u16 = ''wuffs_base__slice_u16''"
| "slice_type_name Slice_u32 = ''wuffs_base__slice_u32''"
| "slice_type_name Slice_u64 = ''wuffs_base__slice_u64''"

datatype subslice_op = Subslice_i | Subslice_j | Subslice_ij

fun subslice_op_name :: "subslice_op \<Rightarrow> string" where
  "subslice_op_name Subslice_i = ''subslice_i''"
| "subslice_op_name Subslice_j = ''subslice_j''"
| "subslice_op_name Subslice_ij = ''subslice_ij''"

definition subslice_function_name :: "slice_type \<Rightarrow> subslice_op \<Rightarrow> string" where
  "subslice_function_name t op = slice_type_name t @ ''__'' @ subslice_op_name op"

definition has_subslice_function :: "slice_type \<Rightarrow> subslice_op \<Rightarrow> bool" where
  "has_subslice_function t op = (subslice_function_name t op \<in> set header_functions)"

section \<open>Saturating arithmetic is exact clamping\<close>

text \<open>The two bit tricks on words of any width.\<close>

lemma uint_minus_1_word: "uint (- 1 :: 'a::len word) = 2 ^ LENGTH('a) - 1"
  by (simp add: unsigned_minus_1_eq_mask mask_eq_exp_minus_1)

lemma sat_add_word:
  fixes x y :: "'a::len word"
  shows "uint ((x + y) OR (if x + y < x then - 1 else 0)) =
         min (uint x + uint y) (2 ^ LENGTH('a) - 1)"
proof (cases "x + y < x")
  case True
  then have "\<not> x \<le> x + y" by simp
  then have "\<not> uint x + uint y < 2 ^ LENGTH('a)" by (simp add: no_olen_add)
  with True show ?thesis by (simp add: uint_minus_1_word)
next
  case False
  then have "x \<le> x + y" by simp
  then have "uint (x + y) = uint x + uint y" by (rule uint_plus_simple)
  moreover have "uint (x + y) < 2 ^ LENGTH('a)" by (rule uint_lt2p)
  ultimately show ?thesis using False by simp
qed

lemma sat_sub_word:
  fixes x y :: "'a::len word"
  shows "uint ((x - y) AND (if x - y \<le> x then - 1 else 0)) = max (uint x - uint y) 0"
proof (cases "x - y \<le> x")
  case True
  then have le: "uint y \<le> uint x" by (simp add: no_ulen_sub)
  then have "uint (x - y) = uint x - uint y" by (simp add: uint_sub_lem)
  with True le show ?thesis by simp
next
  case False
  then have "\<not> uint y \<le> uint x" by (simp add: no_ulen_sub)
  with False show ?thesis by simp
qed

text \<open>
  Promoting an 8 or 16 bit operand to \<^verbatim>\<open>int\<close> keeps its value, so the arithmetic done on
  the promoted operands and converted back is the arithmetic of the narrow type.
\<close>

lemma sint_promote_u8: "sint (ucast (x :: 8 word) :: c_int) = uint x"
proof -
  have "uint x < 2 ^ 8" using uint_lt2p [of x] by simp
  then have hi: "uint x < 2 ^ 31" by simp
  have lo: "- (2 ^ 31) \<le> uint x" by (rule order_trans [of _ 0]) simp_all
  have "signed_take_bit 31 (uint x) = uint x"
    using lo hi by (rule signed_take_bit_int_eq_self)
  then show ?thesis by (simp add: signed_ucast_eq)
qed

lemma sint_promote_u16: "sint (ucast (x :: 16 word) :: c_int) = uint x"
proof -
  have "uint x < 2 ^ 16" using uint_lt2p [of x] by simp
  then have hi: "uint x < 2 ^ 31" by simp
  have lo: "- (2 ^ 31) \<le> uint x" by (rule order_trans [of _ 0]) simp_all
  have "signed_take_bit 31 (uint x) = uint x"
    using lo hi by (rule signed_take_bit_int_eq_self)
  then show ?thesis by (simp add: signed_ucast_eq)
qed

lemma promote_less_u8: "((ucast (x :: 8 word) :: c_int) <s ucast (y :: 8 word)) = (x < y)"
  by (simp add: word_sless_alt word_less_alt sint_promote_u8)

lemma promote_le_u8: "((ucast (x :: 8 word) :: c_int) \<le>s ucast (y :: 8 word)) = (x \<le> y)"
  by (simp add: word_sle_eq word_le_def sint_promote_u8)

lemma promote_less_u16: "((ucast (x :: 16 word) :: c_int) <s ucast (y :: 16 word)) = (x < y)"
  by (simp add: word_sless_alt word_less_alt sint_promote_u16)

lemma promote_le_u16: "((ucast (x :: 16 word) :: c_int) \<le>s ucast (y :: 16 word)) = (x \<le> y)"
  by (simp add: word_sle_eq word_le_def sint_promote_u16)

lemma promote_add_u8: "(ucast ((ucast (x :: 8 word) :: c_int) + ucast (y :: 8 word)) :: 8 word) = x + y"
  by transfer (simp add: take_bit_eq_mod mod_simps)

lemma promote_sub_u8: "(ucast ((ucast (x :: 8 word) :: c_int) - ucast (y :: 8 word)) :: 8 word) = x - y"
  by transfer (simp add: take_bit_eq_mod mod_mod_cancel mod_simps)

lemma promote_add_u16: "(ucast ((ucast (x :: 16 word) :: c_int) + ucast (y :: 16 word)) :: 16 word) = x + y"
  by transfer (simp add: take_bit_eq_mod mod_simps)

lemma promote_sub_u16: "(ucast ((ucast (x :: 16 word) :: c_int) - ucast (y :: 16 word)) :: 16 word) = x - y"
  by transfer (simp add: take_bit_eq_mod mod_mod_cancel mod_simps)

lemma promote_or_u8: "(ucast ((ucast (x :: 8 word) :: c_int) OR - c_bool b) :: 8 word) = x OR (if b then - 1 else 0)"
  by (rule bit_word_eqI) (auto simp add: bit_simps c_bool_def)

lemma promote_and_u8: "(ucast ((ucast (x :: 8 word) :: c_int) AND - c_bool b) :: 8 word) = x AND (if b then - 1 else 0)"
  by (rule bit_word_eqI) (auto simp add: bit_simps c_bool_def)

lemma promote_or_u16: "(ucast ((ucast (x :: 16 word) :: c_int) OR - c_bool b) :: 16 word) = x OR (if b then - 1 else 0)"
  by (rule bit_word_eqI) (auto simp add: bit_simps c_bool_def)

lemma promote_and_u16: "(ucast ((ucast (x :: 16 word) :: c_int) AND - c_bool b) :: 16 word) = x AND (if b then - 1 else 0)"
  by (rule bit_word_eqI) (auto simp add: bit_simps c_bool_def)

text \<open>The mask \<^verbatim>\<open>-(cond)\<close> is all ones or all zeros, at every width.\<close>

lemma mask_u32: "- c_bool b = (if b then - 1 else 0)"
  by (simp add: c_bool_def)

lemma mask_u64: "(scast (- c_bool b) :: 64 word) = (if b then - 1 else 0)"
  by (simp add: c_bool_def)

text \<open>Each of the eight functions is the bit trick at its own width.\<close>

lemma u8_sat_add_word: "wuffs_base__u8__sat_add x y = (x + y) OR (if x + y < x then - 1 else 0)"
  by (simp only: wuffs_base__u8__sat_add_def Let_def promote_add_u8 promote_less_u8 promote_or_u8)

lemma u8_sat_sub_word: "wuffs_base__u8__sat_sub x y = (x - y) AND (if x - y \<le> x then - 1 else 0)"
  by (simp only: wuffs_base__u8__sat_sub_def Let_def promote_sub_u8 promote_le_u8 promote_and_u8)

lemma u16_sat_add_word: "wuffs_base__u16__sat_add x y = (x + y) OR (if x + y < x then - 1 else 0)"
  by (simp only: wuffs_base__u16__sat_add_def Let_def promote_add_u16 promote_less_u16 promote_or_u16)

lemma u16_sat_sub_word: "wuffs_base__u16__sat_sub x y = (x - y) AND (if x - y \<le> x then - 1 else 0)"
  by (simp only: wuffs_base__u16__sat_sub_def Let_def promote_sub_u16 promote_le_u16 promote_and_u16)

lemma u32_sat_add_word: "wuffs_base__u32__sat_add x y = (x + y) OR (if x + y < x then - 1 else 0)"
  by (simp only: wuffs_base__u32__sat_add_def Let_def mask_u32)

lemma u32_sat_sub_word: "wuffs_base__u32__sat_sub x y = (x - y) AND (if x - y \<le> x then - 1 else 0)"
  by (simp only: wuffs_base__u32__sat_sub_def Let_def mask_u32)

lemma u64_sat_add_word: "wuffs_base__u64__sat_add x y = (x + y) OR (if x + y < x then - 1 else 0)"
  by (simp only: wuffs_base__u64__sat_add_def Let_def mask_u64)

lemma u64_sat_sub_word: "wuffs_base__u64__sat_sub x y = (x - y) AND (if x - y \<le> x then - 1 else 0)"
  by (simp only: wuffs_base__u64__sat_sub_def Let_def mask_u64)

text \<open>
  Claim C1. For every width w in {8, 16, 32, 64} and all unsigned w-bit integers x and y,
  \<^verbatim>\<open>sat_add(x, y)\<close> is the minimum of the exact sum x + y and 2^w - 1; in particular
  the 8-bit \<^verbatim>\<open>sat_add(250, 10)\<close> is 255.
\<close>

theorem sat_add_is_clamped_sum:
  "uint (wuffs_base__u8__sat_add x8 y8) = min (uint x8 + uint y8) (2 ^ 8 - 1) \<and>
   uint (wuffs_base__u16__sat_add x16 y16) = min (uint x16 + uint y16) (2 ^ 16 - 1) \<and>
   uint (wuffs_base__u32__sat_add x32 y32) = min (uint x32 + uint y32) (2 ^ 32 - 1) \<and>
   uint (wuffs_base__u64__sat_add x64 y64) = min (uint x64 + uint y64) (2 ^ 64 - 1) \<and>
   wuffs_base__u8__sat_add 250 10 = 255"
proof -
  have "uint (wuffs_base__u8__sat_add x8 y8) = min (uint x8 + uint y8) (2 ^ 8 - 1)"
    using sat_add_word [of x8 y8] by (simp add: u8_sat_add_word)
  moreover have "uint (wuffs_base__u16__sat_add x16 y16) = min (uint x16 + uint y16) (2 ^ 16 - 1)"
    using sat_add_word [of x16 y16] by (simp add: u16_sat_add_word)
  moreover have "uint (wuffs_base__u32__sat_add x32 y32) = min (uint x32 + uint y32) (2 ^ 32 - 1)"
    using sat_add_word [of x32 y32] by (simp add: u32_sat_add_word)
  moreover have "uint (wuffs_base__u64__sat_add x64 y64) = min (uint x64 + uint y64) (2 ^ 64 - 1)"
    using sat_add_word [of x64 y64] by (simp add: u64_sat_add_word)
  moreover have "wuffs_base__u8__sat_add 250 10 = 255"
    by (simp add: u8_sat_add_word)
  ultimately show ?thesis by (intro conjI)
qed

text \<open>
  Claim C2. For every width w in {8, 16, 32, 64} and all unsigned w-bit integers x and y,
  \<^verbatim>\<open>sat_sub(x, y)\<close> is the maximum of the exact difference x - y and 0; in particular
  the 8-bit \<^verbatim>\<open>sat_sub(5, 10)\<close> is 0.
\<close>

theorem sat_sub_is_clamped_difference:
  "uint (wuffs_base__u8__sat_sub x8 y8) = max (uint x8 - uint y8) 0 \<and>
   uint (wuffs_base__u16__sat_sub x16 y16) = max (uint x16 - uint y16) 0 \<and>
   uint (wuffs_base__u32__sat_sub x32 y32) = max (uint x32 - uint y32) 0 \<and>
   uint (wuffs_base__u64__sat_sub x64 y64) = max (uint x64 - uint y64) 0 \<and>
   wuffs_base__u8__sat_sub 5 10 = 0"
proof -
  have "uint (wuffs_base__u8__sat_sub x8 y8) = max (uint x8 - uint y8) 0"
    by (simp only: u8_sat_sub_word sat_sub_word)
  moreover have "uint (wuffs_base__u16__sat_sub x16 y16) = max (uint x16 - uint y16) 0"
    by (simp only: u16_sat_sub_word sat_sub_word)
  moreover have "uint (wuffs_base__u32__sat_sub x32 y32) = max (uint x32 - uint y32) 0"
    by (simp only: u32_sat_sub_word sat_sub_word)
  moreover have "uint (wuffs_base__u64__sat_sub x64 y64) = max (uint x64 - uint y64) 0"
    by (simp only: u64_sat_sub_word sat_sub_word)
  moreover have "wuffs_base__u8__sat_sub 5 10 = 0"
    by (simp add: u8_sat_sub_word)
  ultimately show ?thesis by (intro conjI)
qed

section \<open>The four categories of a status\<close>

text \<open>
  Claim C3. For every status value v, the ok value \<^verbatim>\<open>NULL\<close> or a pointer to a message,
  exactly one of \<^verbatim>\<open>is_ok(v)\<close>, \<^verbatim>\<open>is_warning(v)\<close>, \<^verbatim>\<open>is_suspension(v)\<close> and
  \<^verbatim>\<open>is_error(v)\<close> is true.
\<close>

theorem status_categories_partition:
  "(wuffs_base__status__is_ok v \<and> \<not> wuffs_base__status__is_warning v \<and>
      \<not> wuffs_base__status__is_suspension v \<and> \<not> wuffs_base__status__is_error v) \<or>
   (wuffs_base__status__is_warning v \<and> \<not> wuffs_base__status__is_ok v \<and>
      \<not> wuffs_base__status__is_suspension v \<and> \<not> wuffs_base__status__is_error v) \<or>
   (wuffs_base__status__is_suspension v \<and> \<not> wuffs_base__status__is_ok v \<and>
      \<not> wuffs_base__status__is_warning v \<and> \<not> wuffs_base__status__is_error v) \<or>
   (wuffs_base__status__is_error v \<and> \<not> wuffs_base__status__is_ok v \<and>
      \<not> wuffs_base__status__is_warning v \<and> \<not> wuffs_base__status__is_suspension v)"
proof (cases v)
  case None
  then show ?thesis
    by (simp add: wuffs_base__status__is_ok_def wuffs_base__status__is_warning_def
        wuffs_base__status__is_suspension_def wuffs_base__status__is_error_def)
next
  case (Some m)
  then show ?thesis
    by (cases "first_char m = CHR ''$''"; cases "first_char m = CHR ''?''")
       (simp_all add: wuffs_base__status__is_ok_def wuffs_base__status__is_warning_def
        wuffs_base__status__is_suspension_def wuffs_base__status__is_error_def)
qed

text \<open>
  Claim C4. For every status value v, \<^verbatim>\<open>is_complete(v)\<close> is true if and only if
  \<^verbatim>\<open>is_ok(v) || is_warning(v)\<close> is true.
\<close>

theorem is_complete_iff_ok_or_warning:
  "wuffs_base__status__is_complete v =
     (wuffs_base__status__is_ok v \<or> wuffs_base__status__is_warning v)"
  by (cases v)
     (simp_all add: wuffs_base__status__is_complete_def wuffs_base__status__is_ok_def
        wuffs_base__status__is_warning_def)

section \<open>Sub-slicing\<close>

text \<open>
  Where a \<^verbatim>\<open>size_t\<close> converts to \<^verbatim>\<open>uint64_t\<close> without overflow, the conversions of the
  three functions keep the values, and their two range checks are one comparison of
  numbers.
\<close>

lemma size_t_to_u64:
  assumes "LENGTH('z::len) \<le> 64"
  shows "unat (ucast (w :: 'z word) :: 64 word) = unat w"
proof -
  have "is_up (ucast :: 'z word \<Rightarrow> 64 word)" using assms by (simp add: is_up)
  then have "uint (ucast w :: 64 word) = uint w" by (rule uint_up_ucast)
  then show ?thesis by (simp only: unat_eq_nat_uint)
qed

lemma size_t_via_u64:
  assumes "LENGTH('z::len) \<le> 64"
  shows "(ucast (ucast (w :: 'z word) :: 64 word) :: 'z word) = w"
proof -
  have "is_up (ucast :: 'z word \<Rightarrow> 64 word)" using assms by (simp add: is_up)
  then show ?thesis by (rule ucast_up_ucast_id)
qed

lemma le_len_iff:
  assumes "LENGTH('z::len) \<le> 64"
  shows "(i \<le> ucast (n :: 'z word)) = (unat (i :: 64 word) \<le> unat n)"
  by (simp add: word_le_nat_alt size_t_to_u64 [OF assms])

lemma le_len_le_SIZE_MAX:
  assumes "LENGTH('z::len) \<le> 64" and "i \<le> ucast (n :: 'z word)"
  shows "(i :: 64 word) \<le> ucast (SIZE_MAX :: 'z word)"
proof -
  have "n \<le> SIZE_MAX" by (simp add: SIZE_MAX_def)
  then have "unat n \<le> unat (SIZE_MAX :: 'z word)" by (simp add: word_le_nat_alt)
  moreover have "unat i \<le> unat n" using assms by (simp add: le_len_iff)
  ultimately have "unat i \<le> unat (SIZE_MAX :: 'z word)" by simp
  then show ?thesis by (simp add: le_len_iff [OF assms(1)])
qed

lemma in_range_iff:
  assumes "LENGTH('z::len) \<le> 64"
  shows "((i :: 64 word) \<le> ucast (SIZE_MAX :: 'z word) \<and> i \<le> ucast (n :: 'z word)) =
         (unat i \<le> unat n)"
  using le_len_le_SIZE_MAX [OF assms, of i n] le_len_iff [OF assms, of i n] by blast

lemma unat_len_of_u64:
  assumes "LENGTH('z::len) \<le> 64" and "unat (k :: 64 word) \<le> unat (n :: 'z word)"
  shows "unat (ucast k :: 'z word) = unat k"
proof -
  have "unat (word_of_nat (unat k) :: 'z word) = unat k"
    using assms(2) by (rule le_unat_uoi)
  then show ?thesis by simp
qed

lemma unat_len_minus:
  assumes "LENGTH('z::len) \<le> 64" and "unat (i :: 64 word) \<le> unat (n :: 'z word)"
  shows "unat (ucast (ucast n - i) :: 'z word) = unat n - unat i"
proof -
  have "i \<le> ucast n" using assms by (simp add: le_len_iff)
  then have "unat (ucast n - i :: 64 word) = unat (ucast n :: 64 word) - unat i"
    by (rule unat_sub)
  then have eq: "unat (ucast n - i :: 64 word) = unat n - unat i"
    by (simp add: size_t_to_u64 [OF assms(1)])
  then have "unat (ucast n - i :: 64 word) \<le> unat n" by simp
  with assms(1) have "unat (ucast (ucast n - i) :: 'z word) = unat (ucast n - i :: 64 word)"
    by (rule unat_len_of_u64)
  with eq show ?thesis by simp
qed

lemma unat_len_diff:
  assumes "LENGTH('z::len) \<le> 64" and "unat (i :: 64 word) \<le> unat (j :: 64 word)"
    and "unat j \<le> unat (n :: 'z word)"
  shows "unat (ucast (j - i) :: 'z word) = unat j - unat i"
proof -
  have "i \<le> j" using assms(2) by (simp add: word_le_nat_alt)
  then have eq: "unat (j - i) = unat j - unat i" by (rule unat_sub)
  then have "unat (j - i) \<le> unat n" using assms(3) by simp
  with assms(1) have "unat (ucast (j - i) :: 'z word) = unat (j - i)"
    by (rule unat_len_of_u64)
  with eq show ?thesis by simp
qed

lemma subslice_i_cases:
  assumes "LENGTH('z::len) \<le> 64"
  shows "wuffs_base__slice_u8__subslice_i (s :: 'z wuffs_base__slice_u8) i =
           (if unat i \<le> unat (len s)
            then \<lparr>ptr = ptr s + ucast i, len = ucast (ucast (len s) - i)\<rparr>
            else empty_slice)"
  by (simp only: wuffs_base__slice_u8__subslice_i_def in_range_iff [OF assms])

lemma subslice_j_cases:
  assumes "LENGTH('z::len) \<le> 64"
  shows "wuffs_base__slice_u8__subslice_j (s :: 'z wuffs_base__slice_u8) j =
           (if unat j \<le> unat (len s)
            then \<lparr>ptr = ptr s, len = ucast j\<rparr>
            else empty_slice)"
  by (simp only: wuffs_base__slice_u8__subslice_j_def in_range_iff [OF assms])

lemma subslice_ij_cases:
  assumes "LENGTH('z::len) \<le> 64"
  shows "wuffs_base__slice_u8__subslice_ij (s :: 'z wuffs_base__slice_u8) i j =
           (if unat i \<le> unat j \<and> unat j \<le> unat (len s)
            then \<lparr>ptr = ptr s + ucast i, len = ucast (j - i)\<rparr>
            else empty_slice)"
  by (simp only: wuffs_base__slice_u8__subslice_ij_def in_range_iff [OF assms]
      word_le_nat_alt [of i j])

text \<open>
  Claim C5. For every slice s and all arguments out of range, that is
  \<^verbatim>\<open>subslice_j(s, j)\<close> with j > s.len, \<^verbatim>\<open>subslice_i(s, i)\<close> with i > s.len, or
  \<^verbatim>\<open>subslice_ij(s, i, j)\<close> with i > j or j > s.len, the function neither faults nor
  reports an error (it has no such result: it returns a slice); it returns the empty
  slice, whose pointer is \<^verbatim>\<open>NULL\<close> and whose length is zero.
\<close>

theorem out_of_range_gives_empty_slice:
  fixes s :: "'z::len wuffs_base__slice_u8"
  assumes "LENGTH('z) \<le> 64"
  shows "(unat (len s) < unat j \<longrightarrow> wuffs_base__slice_u8__subslice_j s j = empty_slice) \<and>
         (unat (len s) < unat i \<longrightarrow> wuffs_base__slice_u8__subslice_i s i = empty_slice) \<and>
         (unat j < unat i \<or> unat (len s) < unat j \<longrightarrow>
            wuffs_base__slice_u8__subslice_ij s i j = empty_slice) \<and>
         ptr (empty_slice :: 'z wuffs_base__slice_u8) = 0 \<and>
         len (empty_slice :: 'z wuffs_base__slice_u8) = 0"
proof (intro conjI impI)
  assume "unat (len s) < unat j"
  then show "wuffs_base__slice_u8__subslice_j s j = empty_slice"
    by (simp add: subslice_j_cases [OF assms])
next
  assume "unat (len s) < unat i"
  then show "wuffs_base__slice_u8__subslice_i s i = empty_slice"
    by (simp add: subslice_i_cases [OF assms])
next
  assume "unat j < unat i \<or> unat (len s) < unat j"
  then show "wuffs_base__slice_u8__subslice_ij s i j = empty_slice"
    by (auto simp add: subslice_ij_cases [OF assms])
next
  show "ptr (empty_slice :: 'z wuffs_base__slice_u8) = 0" by (simp add: empty_slice_def)
next
  show "len (empty_slice :: 'z wuffs_base__slice_u8) = 0" by (simp add: empty_slice_def)
qed

theorem out_of_range_gives_empty_slice_witness:
  "wuffs_base__slice_u8__subslice_j \<lparr>ptr = 4096, len = 10 :: 32 word\<rparr> 11 = empty_slice \<and>
   wuffs_base__slice_u8__subslice_i \<lparr>ptr = 4096, len = 10 :: 32 word\<rparr> 4294967296 = empty_slice \<and>
   wuffs_base__slice_u8__subslice_ij \<lparr>ptr = 4096, len = 10 :: 32 word\<rparr> 4294967296 11 = empty_slice \<and>
   wuffs_base__slice_u8__subslice_ij \<lparr>ptr = 4096, len = 10 :: 32 word\<rparr> 7 3 = empty_slice"
  using out_of_range_gives_empty_slice
    [where s = "\<lparr>ptr = 4096, len = 10 :: 32 word\<rparr>" and j = 11 and i = 4294967296]
    out_of_range_gives_empty_slice
    [where s = "\<lparr>ptr = 4096, len = 10 :: 32 word\<rparr>" and j = 3 and i = 7]
  by simp

text \<open>
  Claim C6. For every slice s, \<^verbatim>\<open>subslice_j(s, s.len)\<close> is s and \<^verbatim>\<open>subslice_i(s, 0)\<close>
  is s, in pointer and in length.
\<close>

theorem full_prefix_and_suffix_are_identity:
  fixes s :: "'z::len wuffs_base__slice_u8"
  assumes "LENGTH('z) \<le> 64"
  shows "wuffs_base__slice_u8__subslice_j s (ucast (len s)) = s \<and>
         wuffs_base__slice_u8__subslice_i s 0 = s"
proof
  show "wuffs_base__slice_u8__subslice_j s (ucast (len s)) = s"
    by (simp add: subslice_j_cases [OF assms] size_t_to_u64 [OF assms]
        size_t_via_u64 [OF assms])
next
  show "wuffs_base__slice_u8__subslice_i s 0 = s"
    by (simp add: subslice_i_cases [OF assms] size_t_via_u64 [OF assms])
qed

theorem full_prefix_and_suffix_are_identity_witness:
  "wuffs_base__slice_u8__subslice_j \<lparr>ptr = 4096, len = 10 :: 64 word\<rparr> 10 =
     \<lparr>ptr = 4096, len = 10\<rparr> \<and>
   wuffs_base__slice_u8__subslice_i \<lparr>ptr = 4096, len = 10 :: 64 word\<rparr> 0 =
     \<lparr>ptr = 4096, len = 10\<rparr>"
  using full_prefix_and_suffix_are_identity [of "\<lparr>ptr = 4096, len = 10 :: 64 word\<rparr>"]
  by simp

text \<open>
  Claim C7. For a slice s of length 10, \<^verbatim>\<open>subslice_ij(s, 3, 7)\<close> has length 4 and points 3
  elements past the pointer of s, and \<^verbatim>\<open>subslice_ij(_, 0, 4)\<close> of that result is the
  same slice of 4 elements, in pointer and in length. It is stated at both widths of
  \<^verbatim>\<open>size_t\<close>, for any pointer \<open>p\<close> of 32 bits and any pointer \<open>q\<close> of 64 bits.
\<close>

theorem range_3_7_of_ten_then_range_0_4:
  "wuffs_base__slice_u8__subslice_ij \<lparr>ptr = p, len = 10 :: 32 word\<rparr> 3 7 =
     \<lparr>ptr = p + 3, len = 4\<rparr> \<and>
   wuffs_base__slice_u8__subslice_ij
     (wuffs_base__slice_u8__subslice_ij \<lparr>ptr = p, len = 10 :: 32 word\<rparr> 3 7) 0 4 =
     wuffs_base__slice_u8__subslice_ij \<lparr>ptr = p, len = 10 :: 32 word\<rparr> 3 7 \<and>
   wuffs_base__slice_u8__subslice_ij \<lparr>ptr = q, len = 10 :: 64 word\<rparr> 3 7 =
     \<lparr>ptr = q + 3, len = 4\<rparr> \<and>
   wuffs_base__slice_u8__subslice_ij
     (wuffs_base__slice_u8__subslice_ij \<lparr>ptr = q, len = 10 :: 64 word\<rparr> 3 7) 0 4 =
     wuffs_base__slice_u8__subslice_ij \<lparr>ptr = q, len = 10 :: 64 word\<rparr> 3 7"
proof -
  have a: "wuffs_base__slice_u8__subslice_ij \<lparr>ptr = p, len = 10 :: 32 word\<rparr> 3 7 =
      \<lparr>ptr = p + 3, len = 4\<rparr>"
    by (simp add: subslice_ij_cases)
  have b: "wuffs_base__slice_u8__subslice_ij \<lparr>ptr = p + 3, len = 4 :: 32 word\<rparr> 0 4 =
      \<lparr>ptr = p + 3, len = 4\<rparr>"
    by (simp add: subslice_ij_cases)
  have c: "wuffs_base__slice_u8__subslice_ij \<lparr>ptr = q, len = 10 :: 64 word\<rparr> 3 7 =
      \<lparr>ptr = q + 3, len = 4\<rparr>"
    by (simp add: subslice_ij_cases)
  have d: "wuffs_base__slice_u8__subslice_ij \<lparr>ptr = q + 3, len = 4 :: 64 word\<rparr> 0 4 =
      \<lparr>ptr = q + 3, len = 4\<rparr>"
    by (simp add: subslice_ij_cases)
  show ?thesis by (simp only: a b c d)
qed

text \<open>
  The pointer of an in-range result: its offset from the pointer of \<open>s\<close> is the index,
  and where the memory of \<open>s\<close> lies in the address space the addition does not wrap.
\<close>

lemma ptr_offset:
  assumes "LENGTH('z::len) \<le> 64" and "unat (i :: 64 word) \<le> unat (n :: 'z word)"
  shows "unat ((p :: 'z word) + ucast i - p) = unat i"
  using unat_len_of_u64 [OF assms] by simp

lemma ptr_add_no_wrap:
  assumes "LENGTH('z::len) \<le> 64" and "unat (i :: 64 word) \<le> unat (n :: 'z word)"
    and "unat (p :: 'z word) + unat n < 2 ^ LENGTH('z)"
  shows "unat (p + ucast i) = unat p + unat i"
proof -
  have i: "unat (ucast i :: 'z word) = unat i" using assms(1,2) by (rule unat_len_of_u64)
  then have "unat p + unat (ucast i :: 'z word) < 2 ^ LENGTH('z)" using assms(2,3) by simp
  then have "unat (p + ucast i) = unat p + unat (ucast i :: 'z word)"
    by (simp only: unat_add_lem)
  with i show ?thesis by simp
qed

lemma subslice_i_contained:
  fixes s :: "'z::len wuffs_base__slice_u8"
  assumes "LENGTH('z) \<le> 64" and "unat i \<le> unat (len s)"
  shows "contained_in_mod (wuffs_base__slice_u8__subslice_i s i) s"
    and "in_address_space s \<Longrightarrow> contained_in (wuffs_base__slice_u8__subslice_i s i) s"
proof -
  have n: "unat (ucast (ucast (len s) - i) :: 'z word) = unat (len s) - unat i"
    using assms by (rule unat_len_minus)
  have off: "unat (ptr s + ucast i - ptr s) = unat i"
    using assms by (rule ptr_offset)
  show "contained_in_mod (wuffs_base__slice_u8__subslice_i s i) s"
    using assms(2) n off
    by (simp add: subslice_i_cases [OF assms(1)] contained_in_mod_def offset_in_def)
  assume "in_address_space s"
  then have "unat (ptr s) + unat (len s) < 2 ^ LENGTH('z)" by (simp add: in_address_space_def)
  with assms have "unat (ptr s + ucast i) = unat (ptr s) + unat i" by (rule ptr_add_no_wrap)
  with assms(2) n show "contained_in (wuffs_base__slice_u8__subslice_i s i) s"
    by (simp add: subslice_i_cases [OF assms(1)] contained_in_def)
qed

lemma subslice_j_contained:
  fixes s :: "'z::len wuffs_base__slice_u8"
  assumes "LENGTH('z) \<le> 64" and "unat j \<le> unat (len s)"
  shows "contained_in_mod (wuffs_base__slice_u8__subslice_j s j) s"
    and "contained_in (wuffs_base__slice_u8__subslice_j s j) s"
proof -
  have n: "unat (ucast j :: 'z word) = unat j" using assms by (rule unat_len_of_u64)
  show "contained_in_mod (wuffs_base__slice_u8__subslice_j s j) s"
    using assms(2) n
    by (simp add: subslice_j_cases [OF assms(1)] contained_in_mod_def offset_in_def)
  show "contained_in (wuffs_base__slice_u8__subslice_j s j) s"
    using assms(2) n
    by (simp add: subslice_j_cases [OF assms(1)] contained_in_def)
qed

lemma subslice_ij_contained:
  fixes s :: "'z::len wuffs_base__slice_u8"
  assumes "LENGTH('z) \<le> 64" and "unat i \<le> unat j" and "unat j \<le> unat (len s)"
  shows "contained_in_mod (wuffs_base__slice_u8__subslice_ij s i j) s"
    and "in_address_space s \<Longrightarrow> contained_in (wuffs_base__slice_u8__subslice_ij s i j) s"
proof -
  have i: "unat i \<le> unat (len s)" using assms(2,3) by simp
  have n: "unat (ucast (j - i) :: 'z word) = unat j - unat i"
    using assms by (rule unat_len_diff)
  have off: "unat (ptr s + ucast i - ptr s) = unat i"
    using assms(1) i by (rule ptr_offset)
  show "contained_in_mod (wuffs_base__slice_u8__subslice_ij s i j) s"
    using assms(2,3) n off
    by (simp add: subslice_ij_cases [OF assms(1)] contained_in_mod_def offset_in_def)
  assume "in_address_space s"
  then have "unat (ptr s) + unat (len s) < 2 ^ LENGTH('z)" by (simp add: in_address_space_def)
  with assms(1) i have "unat (ptr s + ucast i) = unat (ptr s) + unat i"
    by (rule ptr_add_no_wrap)
  with assms(2,3) n show "contained_in (wuffs_base__slice_u8__subslice_ij s i j) s"
    by (simp add: subslice_ij_cases [OF assms(1)] contained_in_def)
qed

text \<open>
  Claim C10. Each of \<^verbatim>\<open>subslice_i\<close>, \<^verbatim>\<open>subslice_j\<close> and \<^verbatim>\<open>subslice_ij\<close>, for all
  arguments, returns a slice contained in s: its length is at most that of s, and its
  pointer is that of s plus an element offset between 0 and s.len with offset plus length
  at most s.len; unless the result is the all-zero empty slice. The pointer of s plus the
  offset is the pointer's own addition, for every s; where the memory of s lies in the
  address space, that addition does not wrap and the result lies between the start and
  the end of s as addresses.
\<close>

theorem subslices_are_contained:
  fixes s :: "'z::len wuffs_base__slice_u8"
  assumes "LENGTH('z) \<le> 64"
  shows "(wuffs_base__slice_u8__subslice_i s i = empty_slice \<or>
            contained_in_mod (wuffs_base__slice_u8__subslice_i s i) s) \<and>
         (wuffs_base__slice_u8__subslice_j s j = empty_slice \<or>
            contained_in_mod (wuffs_base__slice_u8__subslice_j s j) s) \<and>
         (wuffs_base__slice_u8__subslice_ij s i j = empty_slice \<or>
            contained_in_mod (wuffs_base__slice_u8__subslice_ij s i j) s) \<and>
         (in_address_space s \<longrightarrow>
            (wuffs_base__slice_u8__subslice_i s i = empty_slice \<or>
               contained_in (wuffs_base__slice_u8__subslice_i s i) s) \<and>
            (wuffs_base__slice_u8__subslice_j s j = empty_slice \<or>
               contained_in (wuffs_base__slice_u8__subslice_j s j) s) \<and>
            (wuffs_base__slice_u8__subslice_ij s i j = empty_slice \<or>
               contained_in (wuffs_base__slice_u8__subslice_ij s i j) s))"
proof -
  have out_i: "wuffs_base__slice_u8__subslice_i s i = empty_slice"
    if "\<not> unat i \<le> unat (len s)"
    using that by (simp only: subslice_i_cases [OF assms] if_False)
  have out_j: "wuffs_base__slice_u8__subslice_j s j = empty_slice"
    if "\<not> unat j \<le> unat (len s)"
    using that by (simp only: subslice_j_cases [OF assms] if_False)
  have out_ij: "wuffs_base__slice_u8__subslice_ij s i j = empty_slice"
    if "\<not> (unat i \<le> unat j \<and> unat j \<le> unat (len s))"
    using that by (simp only: subslice_ij_cases [OF assms] if_False)
  have "wuffs_base__slice_u8__subslice_i s i = empty_slice \<or>
      contained_in_mod (wuffs_base__slice_u8__subslice_i s i) s"
    using out_i subslice_i_contained(1) [OF assms] by blast
  moreover have "wuffs_base__slice_u8__subslice_j s j = empty_slice \<or>
      contained_in_mod (wuffs_base__slice_u8__subslice_j s j) s"
    using out_j subslice_j_contained(1) [OF assms] by blast
  moreover have "wuffs_base__slice_u8__subslice_ij s i j = empty_slice \<or>
      contained_in_mod (wuffs_base__slice_u8__subslice_ij s i j) s"
    using out_ij subslice_ij_contained(1) [OF assms] by blast
  moreover have "wuffs_base__slice_u8__subslice_i s i = empty_slice \<or>
      contained_in (wuffs_base__slice_u8__subslice_i s i) s" if "in_address_space s"
    using that out_i subslice_i_contained(2) [OF assms] by blast
  moreover have "wuffs_base__slice_u8__subslice_j s j = empty_slice \<or>
      contained_in (wuffs_base__slice_u8__subslice_j s j) s"
    using out_j subslice_j_contained(2) [OF assms] by blast
  moreover have "wuffs_base__slice_u8__subslice_ij s i j = empty_slice \<or>
      contained_in (wuffs_base__slice_u8__subslice_ij s i j) s" if "in_address_space s"
    using that out_ij subslice_ij_contained(2) [OF assms] by blast
  ultimately show ?thesis by blast
qed

theorem subslices_are_contained_witness:
  "in_address_space \<lparr>ptr = 4096, len = 10 :: 32 word\<rparr> \<and>
   contained_in (wuffs_base__slice_u8__subslice_i \<lparr>ptr = 4096, len = 10 :: 32 word\<rparr> 3)
     \<lparr>ptr = 4096, len = 10\<rparr> \<and>
   contained_in (wuffs_base__slice_u8__subslice_j \<lparr>ptr = 4096, len = 10 :: 32 word\<rparr> 7)
     \<lparr>ptr = 4096, len = 10\<rparr> \<and>
   contained_in (wuffs_base__slice_u8__subslice_ij \<lparr>ptr = 4096, len = 10 :: 32 word\<rparr> 3 7)
     \<lparr>ptr = 4096, len = 10\<rparr> \<and>
   wuffs_base__slice_u8__subslice_i \<lparr>ptr = 4096, len = 10 :: 32 word\<rparr> 11 = empty_slice \<and>
   wuffs_base__slice_u8__subslice_i \<lparr>ptr = 4096, len = - 1 :: 64 word\<rparr> (- 1) =
     \<lparr>ptr = 4095, len = 0\<rparr> \<and>
   contained_in_mod (wuffs_base__slice_u8__subslice_i \<lparr>ptr = 4096, len = - 1 :: 64 word\<rparr> (- 1))
     \<lparr>ptr = 4096, len = - 1\<rparr>"
  using subslices_are_contained
    [where s = "\<lparr>ptr = 4096, len = 10 :: 32 word\<rparr>" and i = 3 and j = 7]
    subslices_are_contained
    [where s = "\<lparr>ptr = 4096, len = 10 :: 32 word\<rparr>" and i = 11 and j = 7]
    subslices_are_contained
    [where s = "\<lparr>ptr = 4096, len = - 1 :: 64 word\<rparr>" and i = "- 1" and j = 0]
  by (simp add: subslice_i_cases subslice_j_cases subslice_ij_cases empty_slice_def
      in_address_space_def)

section \<open>Which slice types have sub-slicing\<close>

text \<open>
  The specification asks for \<^verbatim>\<open>subslice_i\<close>, \<^verbatim>\<open>subslice_j\<close> and \<^verbatim>\<open>subslice_ij\<close> on the
  slice types of all four element widths. The header defines no function of that name on
  \<^verbatim>\<open>wuffs_base__slice_u16\<close>.
\<close>

theorem no_subslice_on_slice_u16:
  "\<not> has_subslice_function Slice_u16 Subslice_i"
  by (simp add: has_subslice_function_def subslice_function_name_def header_functions_def)

text \<open>
  Claim C8, as amended. Of the slice types of element widths 8, 16, 32 and 64 bits, the
  header defines the sub-slicing functions \<^verbatim>\<open>subslice_i\<close>, \<^verbatim>\<open>subslice_j\<close> and
  \<^verbatim>\<open>subslice_ij\<close> on \<^verbatim>\<open>wuffs_base__slice_u8\<close> only, and none of the three on the slice
  types of 16, 32 and 64 bit elements. Those three are also the only functions of the
  header whose name starts with \<^verbatim>\<open>wuffs_base__slice_u\<close>, so no function on another slice
  type goes by another name.
\<close>

theorem subslice_functions_only_on_slice_u8:
  "has_subslice_function t op = (t = Slice_u8) \<and>
   filter (\<lambda>n. take 19 n = ''wuffs_base__slice_u'') header_functions =
     [''wuffs_base__slice_u8__subslice_i'',
      ''wuffs_base__slice_u8__subslice_j'',
      ''wuffs_base__slice_u8__subslice_ij'']"
proof
  show "has_subslice_function t op = (t = Slice_u8)"
    by (cases t; cases op)
       (simp_all add: has_subslice_function_def subslice_function_name_def
          header_functions_def)
next
  show "filter (\<lambda>n. take 19 n = ''wuffs_base__slice_u'') header_functions =
     [''wuffs_base__slice_u8__subslice_i'',
      ''wuffs_base__slice_u8__subslice_j'',
      ''wuffs_base__slice_u8__subslice_ij'']"
    by (simp add: header_functions_def)
qed

section \<open>The layout of the version number\<close>







end
